theory Spec2Isabelle
  imports Main "HOL-Library.Word" "HOL-Library.Signed_Division"
begin

section \<open>The HC-SR04 sonar driver (src/main/drivers/sonar_hcsr04.c)\<close>

subsection \<open>Machine types\<close>

text \<open>
  The driver declares \<^verbatim>\<open>lastMeasurementReceivedAt\<close> as \<^verbatim>\<open>uint32_t\<close> and the cached distance and
  the result of \<^verbatim>\<open>hcsr04_get_distance\<close> as \<^verbatim>\<open>int32_t\<close>. The typedefs \<^verbatim>\<open>timeMs_t\<close>, \<^verbatim>\<open>timeUs_t\<close>
  and \<^verbatim>\<open>timeDelta_t\<close> come from \<^verbatim>\<open>common/time.h\<close>, which is not among the sources. They are
  taken as that header declares them: \<^verbatim>\<open>timeMs_t\<close> and \<^verbatim>\<open>timeUs_t\<close> are \<^verbatim>\<open>uint32_t\<close> (the
  driver stores \<^verbatim>\<open>millis()\<close> in a \<^verbatim>\<open>uint32_t\<close> and compares it with a \<^verbatim>\<open>timeMs_t\<close>), and
  \<^verbatim>\<open>timeDelta_t\<close> is the signed \<^verbatim>\<open>int32_t\<close> (the specification speaks of a negative delta).

  All four are 32-bit words. Addition and subtraction wrap around modulo \<open>2 ^ 32\<close>; \<open><\<close> and
  \<open>\<le>\<close> on words compare unsigned, as C does for \<^verbatim>\<open>uint32_t\<close>; a signed variable is read
  with \<open>sint\<close>. Storing a \<^verbatim>\<open>uint32_t\<close> in an \<^verbatim>\<open>int32_t\<close> keeps the bit pattern (the
  conversion of the ARM compilers this driver is built with).
\<close>

type_synonym uint32_t = "32 word"
type_synonym int32_t = "32 word"
type_synonym timeMs_t = "32 word"
type_synonym timeUs_t = "32 word"
type_synonym timeDelta_t = "32 word"

text \<open>
  \<^verbatim>\<open>hcsr04SonarPulseTravelTime / 59\<close> divides an \<^verbatim>\<open>int32_t\<close> by an \<^verbatim>\<open>int\<close>: C truncates the
  quotient towards zero, which is \<open>sdiv\<close> on \<open>int\<close>. The quotient always fits 32 bits.
\<close>

definition int32_div :: "int32_t \<Rightarrow> int \<Rightarrow> int32_t" where
  "int32_div a b = word_of_int (sint a sdiv b)"

subsection \<open>Constants\<close>

definition HCSR04_MAX_RANGE_CM :: int where
  "HCSR04_MAX_RANGE_CM = 400"

definition HCSR04_MinimumFiringIntervalMs :: uint32_t where
  "HCSR04_MinimumFiringIntervalMs = 60"

text \<open>
  Two macros of \<^verbatim>\<open>drivers/rangefinder.h\<close> and one build switch are used by the driver but
  defined outside it. They are parameters of the model: every operation that depends on one of
  them takes a \<open>build\<close>.
\<close>

record build =
  RANGEFINDER_OUT_OF_RANGE :: int32_t
  RANGEFINDER_HARDWARE_FAILURE :: int32_t
  SONAR_TRIG_INVERTED :: bool

text \<open>
  Modelled from the spec: the header \<^verbatim>\<open>drivers/rangefinder.h\<close> is missing from the sources.
  The specification says that a distance reading is a centimetre value in \<open>[0, 400]\<close> or one
  of two sentinel integer codes, so the two codes differ from each other and from every
  distance in range. \<open>sentinels_distinct\<close> states that of a build. The specification gives
  no values: \<open>rangefinder_h\<close> is one such build, with the values -1 and -2 of the upstream
  header and the trigger not inverted, and is used only where a property is evaluated on a
  concrete run.
\<close>

definition in_range_cm :: "int32_t \<Rightarrow> bool" where
  "in_range_cm d = (0 \<le> sint d \<and> sint d \<le> HCSR04_MAX_RANGE_CM)"

definition sentinels_distinct :: "build \<Rightarrow> bool" where
  "sentinels_distinct b =
     (\<not> in_range_cm (RANGEFINDER_OUT_OF_RANGE b) \<and>
      \<not> in_range_cm (RANGEFINDER_HARDWARE_FAILURE b) \<and>
      RANGEFINDER_OUT_OF_RANGE b \<noteq> RANGEFINDER_HARDWARE_FAILURE b)"

definition rangefinder_h :: build where
  "rangefinder_h =
     \<lparr>RANGEFINDER_OUT_OF_RANGE = - 1, RANGEFINDER_HARDWARE_FAILURE = - 2,
      SONAR_TRIG_INVERTED = False\<rparr>"

subsection \<open>State\<close>

text \<open>
  The file-level and function-level statics of the driver, and the operations performed on the
  trigger pin so far (oldest first). The echo pin is an input: its level is an argument of
  the interrupt handler.
\<close>

datatype io_op = IOHi | IOLo | delayMicroseconds nat

record hcsr04 =
  hcsr04SonarPulseTravelTime :: timeDelta_t
  lastMeasurementReceivedAt :: uint32_t
  lastMeasurementStartedAt :: timeMs_t
  timing_start :: timeUs_t
  lastCalculatedDistance :: int32_t
  triggerIO :: "io_op list"

text \<open>
  The state at declaration: \<^verbatim>\<open>hcsr04SonarPulseTravelTime = 0\<close>, \<^verbatim>\<open>lastMeasurementStartedAt = 0\<close>,
  \<^verbatim>\<open>lastCalculatedDistance = RANGEFINDER_OUT_OF_RANGE\<close>; \<^verbatim>\<open>lastMeasurementReceivedAt\<close> and
  \<^verbatim>\<open>timing_start\<close> have static storage and no initialiser, so C sets them to zero.
\<close>

definition hcsr04_declared :: "build \<Rightarrow> hcsr04" where
  "hcsr04_declared b =
     \<lparr>hcsr04SonarPulseTravelTime = 0,
      lastMeasurementReceivedAt = 0,
      lastMeasurementStartedAt = 0,
      timing_start = 0,
      lastCalculatedDistance = RANGEFINDER_OUT_OF_RANGE b,
      triggerIO = []\<rparr>"

subsection \<open>Operations\<close>

text \<open>
  \<^verbatim>\<open>hcsr04_extiHandler\<close>: \<open>echo\<close> is \<^verbatim>\<open>IORead(echoIO) != 0\<close>, \<open>us\<close> the value \<^verbatim>\<open>micros()\<close> returns
  and \<open>ms\<close> the value \<^verbatim>\<open>millis()\<close> returns when the handler runs.
\<close>

definition hcsr04_extiHandler :: "bool \<Rightarrow> timeUs_t \<Rightarrow> timeMs_t \<Rightarrow> hcsr04 \<Rightarrow> hcsr04" where
  "hcsr04_extiHandler echo us ms s =
     (if echo then s\<lparr>timing_start := us\<rparr>
      else
        (let timing_stop = us in
         if timing_stop > timing_start s
         then s\<lparr>lastMeasurementReceivedAt := ms,
                hcsr04SonarPulseTravelTime := timing_stop - timing_start s\<rparr>
         else s))"

definition hcsr04_init :: "hcsr04 \<Rightarrow> hcsr04" where
  "hcsr04_init s = s"

text \<open>The trigger pulse of \<^verbatim>\<open>hcsr04_start_reading\<close>, in either polarity.\<close>

definition trigger_pulse :: "build \<Rightarrow> io_op list" where
  "trigger_pulse b =
     (if SONAR_TRIG_INVERTED b then [IOLo, delayMicroseconds 11, IOHi]
      else [IOHi, delayMicroseconds 11, IOLo])"

text \<open>
  \<^verbatim>\<open>hcsr04_start_reading\<close> (the build without \<^verbatim>\<open>UNIT_TEST\<close>); \<open>timeNowMs\<close> is the value
  \<^verbatim>\<open>millis()\<close> returns. The sum \<^verbatim>\<open>lastMeasurementStartedAt + 60\<close> is a \<^verbatim>\<open>uint32_t\<close> and wraps.
\<close>

definition hcsr04_start_reading :: "build \<Rightarrow> timeMs_t \<Rightarrow> hcsr04 \<Rightarrow> hcsr04" where
  "hcsr04_start_reading b timeNowMs s =
     (if timeNowMs > lastMeasurementStartedAt s + HCSR04_MinimumFiringIntervalMs
      then s\<lparr>lastMeasurementStartedAt := timeNowMs,
             triggerIO := triggerIO s @ trigger_pulse b\<rparr>
      else s)"

text \<open>
  \<^verbatim>\<open>hcsr04_get_distance\<close> returns the distance and the state with the cache updated. The
  difference \<^verbatim>\<open>timeNowMs - lastMeasurementStartedAt\<close> is a \<^verbatim>\<open>uint32_t\<close> and wraps; the
  comparison with \<^verbatim>\<open>HCSR04_MAX_RANGE_CM\<close> is signed.
\<close>

definition hcsr04_get_distance :: "build \<Rightarrow> timeMs_t \<Rightarrow> hcsr04 \<Rightarrow> int32_t \<times> hcsr04" where
  "hcsr04_get_distance b timeNowMs s =
     (let s' =
        (if lastMeasurementReceivedAt s > lastMeasurementStartedAt s then
           (let s1 = s\<lparr>lastCalculatedDistance := int32_div (hcsr04SonarPulseTravelTime s) 59\<rparr>
            in if sint (lastCalculatedDistance s1) > HCSR04_MAX_RANGE_CM
               then s1\<lparr>lastCalculatedDistance := RANGEFINDER_OUT_OF_RANGE b\<rparr>
               else s1)
         else if timeNowMs - lastMeasurementStartedAt s > HCSR04_MinimumFiringIntervalMs
           then s\<lparr>lastCalculatedDistance := RANGEFINDER_HARDWARE_FAILURE b\<rparr>
         else s)
      in (lastCalculatedDistance s', s'))"

subsection \<open>Runs of the driver\<close>

text \<open>
  The driver is used through calls of its three operations and through edges on the echo
  line, each with the clock values it reads.
\<close>

datatype event =
    Init
  | StartReading timeMs_t
  | GetDistance timeMs_t
  | EchoEdge bool timeUs_t timeMs_t

fun step :: "build \<Rightarrow> event \<Rightarrow> hcsr04 \<Rightarrow> hcsr04" where
  "step b Init s = hcsr04_init s"
| "step b (StartReading now) s = hcsr04_start_reading b now s"
| "step b (GetDistance now) s = snd (hcsr04_get_distance b now s)"
| "step b (EchoEdge echo us ms) s = hcsr04_extiHandler echo us ms s"

fun run :: "build \<Rightarrow> event list \<Rightarrow> hcsr04 \<Rightarrow> hcsr04" where
  "run b [] s = s"
| "run b (e # es) s = run b es (step b e s)"

text \<open>The values the calls of \<^verbatim>\<open>hcsr04_get_distance\<close> in a run return, in order.\<close>

fun returned :: "build \<Rightarrow> event list \<Rightarrow> hcsr04 \<Rightarrow> int32_t list" where
  "returned b [] s = []"
| "returned b (GetDistance now # es) s =
     fst (hcsr04_get_distance b now s) # returned b es (step b (GetDistance now) s)"
| "returned b (e # es) s = returned b es (step b e s)"

text \<open>Every call of \<^verbatim>\<open>hcsr04_get_distance\<close> in the run finds no fresh measurement.\<close>

fun stale_reads :: "build \<Rightarrow> event list \<Rightarrow> hcsr04 \<Rightarrow> bool" where
  "stale_reads b [] s = True"
| "stale_reads b (GetDistance now # es) s =
     (lastMeasurementReceivedAt s \<le> lastMeasurementStartedAt s \<and>
      stale_reads b es (step b (GetDistance now) s))"
| "stale_reads b (e # es) s = stale_reads b es (step b e s)"

subsection \<open>Scenarios\<close>

text \<open>
  The scenario of the specification: a call of \<^verbatim>\<open>hcsr04_start_reading\<close> at 0 ms, a rising
  edge at 5000 us and the falling edge at 5290 us, received at 6 ms.
\<close>

definition echo_290us :: hcsr04 where
  "echo_290us =
     run rangefinder_h [StartReading 0, EchoEdge True 5000 5, EchoEdge False 5290 6]
       (hcsr04_declared rangefinder_h)"

text \<open>The same with the falling edge at 28601 us: a travel time of 23601 us.\<close>

definition echo_23601us :: hcsr04 where
  "echo_23601us =
     run rangefinder_h [StartReading 0, EchoEdge True 5000 5, EchoEdge False 28601 29]
       (hcsr04_declared rangefinder_h)"

text \<open>And with the falling edge at 30000 us: a travel time of 25000 us.\<close>

definition echo_25000us :: hcsr04 where
  "echo_25000us =
     run rangefinder_h [StartReading 0, EchoEdge True 5000 5, EchoEdge False 30000 30]
       (hcsr04_declared rangefinder_h)"

text \<open>A trigger at 100 ms that no echo has answered.\<close>

definition fired_at_100ms :: hcsr04 where
  "fired_at_100ms = run rangefinder_h [StartReading 100] (hcsr04_declared rangefinder_h)"

text \<open>
  Calls and events after a trigger that stays unanswered: a rising edge arrives, its falling
  edge never does.
\<close>

definition silent_run :: "event list" where
  "silent_run =
     [GetDistance 170, StartReading 200, EchoEdge True 205000 205, GetDistance 230, Init,
      GetDistance 300]"

text \<open>
  No echo edge of the run publishes a measurement: each is a rising edge, or a falling edge
  that the handler discards.
\<close>

fun unmeasured :: "build \<Rightarrow> event list \<Rightarrow> hcsr04 \<Rightarrow> bool" where
  "unmeasured b [] s = True"
| "unmeasured b (EchoEdge echo us ms # es) s =
     ((echo \<or> us \<le> timing_start s) \<and> unmeasured b es (step b (EchoEdge echo us ms) s))"
| "unmeasured b (e # es) s = unmeasured b es (step b e s)"

text \<open>Calls before any measurement, with two trigger requests and one rising edge.\<close>

definition first_calls :: "event list" where
  "first_calls =
     [Init, GetDistance 10, StartReading 40, GetDistance 50, StartReading 100,
      EchoEdge True 101000 101, GetDistance 120, GetDistance 170]"

text \<open>A trigger that fires 10 ms before the millisecond clock wraps.\<close>

definition fired_before_wrap :: hcsr04 where
  "fired_before_wrap =
     run rangefinder_h [StartReading 4294967286] (hcsr04_declared rangefinder_h)"

text \<open>
  The first edge the handler sees is a falling edge, 2147483648 us after start-up; the
  distance is read one millisecond later.
\<close>

definition late_falling_edge :: "event list" where
  "late_falling_edge = [EchoEdge False 2147483648 2147483, GetDistance 2147484]"

subsection \<open>A call preempted by the echo handler\<close>

text \<open>
  \<^verbatim>\<open>hcsr04_extiHandler\<close> runs in interrupt context and can preempt \<^verbatim>\<open>hcsr04_get_distance\<close>;
  once started it runs to its end. The two shared variables are \<^verbatim>\<open>volatile\<close>, so the call
  loads each where the source reads it: \<^verbatim>\<open>lastMeasurementReceivedAt\<close> in the condition of the
  first branch, \<^verbatim>\<open>hcsr04SonarPulseTravelTime\<close> inside that branch. An \<open>edge\<close> is one run of the
  handler: the level of the echo pin, \<^verbatim>\<open>micros()\<close> and \<^verbatim>\<open>millis()\<close>.
\<close>

type_synonym edge = "bool \<times> timeUs_t \<times> timeMs_t"

fun interrupts :: "edge list \<Rightarrow> hcsr04 \<Rightarrow> hcsr04" where
  "interrupts [] s = s"
| "interrupts ((echo, us, ms) # es) s = interrupts es (hcsr04_extiHandler echo us ms s)"

text \<open>
  \<^verbatim>\<open>hcsr04_get_distance\<close> with the handler run on \<open>edges\<close> between the two loads: the
  condition is evaluated on the state before them, the travel time is read after them. With
  no edge it is \<^verbatim>\<open>hcsr04_get_distance\<close> itself.
\<close>

definition hcsr04_get_distance_preempted ::
    "build \<Rightarrow> timeMs_t \<Rightarrow> edge list \<Rightarrow> hcsr04 \<Rightarrow> int32_t \<times> hcsr04" where
  "hcsr04_get_distance_preempted b timeNowMs edges s =
     (let received = lastMeasurementReceivedAt s;
          s0 = interrupts edges s;
          s' =
        (if received > lastMeasurementStartedAt s then
           (let s1 = s0\<lparr>lastCalculatedDistance := int32_div (hcsr04SonarPulseTravelTime s0) 59\<rparr>
            in if sint (lastCalculatedDistance s1) > HCSR04_MAX_RANGE_CM
               then s1\<lparr>lastCalculatedDistance := RANGEFINDER_OUT_OF_RANGE b\<rparr>
               else s1)
         else if timeNowMs - lastMeasurementStartedAt s0 > HCSR04_MinimumFiringIntervalMs
           then s0\<lparr>lastCalculatedDistance := RANGEFINDER_HARDWARE_FAILURE b\<rparr>
         else s0)
      in (lastCalculatedDistance s', s'))"

text \<open>The pair of receipt timestamp and travel time that such a call reads, when it reads both.\<close>

definition observed_pair :: "edge list \<Rightarrow> hcsr04 \<Rightarrow> (uint32_t \<times> timeDelta_t) option" where
  "observed_pair edges s =
     (if lastMeasurementReceivedAt s > lastMeasurementStartedAt s
      then Some (lastMeasurementReceivedAt s, hcsr04SonarPulseTravelTime (interrupts edges s))
      else None)"

text \<open>The pairs that the handler publishes during a run, in order.\<close>

fun published :: "build \<Rightarrow> event list \<Rightarrow> hcsr04 \<Rightarrow> (uint32_t \<times> timeDelta_t) list" where
  "published b [] s = []"
| "published b (EchoEdge echo us ms # es) s =
     (if \<not> echo \<and> timing_start s < us then [(ms, us - timing_start s)] else []) @
     published b es (step b (EchoEdge echo us ms) s)"
| "published b (e # es) s = published b es (step b e s)"

text \<open>No edge publishes a measurement: each is a rising edge or a falling edge that is discarded.\<close>

fun quiet :: "edge list \<Rightarrow> hcsr04 \<Rightarrow> bool" where
  "quiet [] s = True"
| "quiet ((echo, us, ms) # es) s =
     ((echo \<or> us \<le> timing_start s) \<and> quiet es (hcsr04_extiHandler echo us ms s))"

text \<open>The pair that the state holds.\<close>

definition measurement :: "hcsr04 \<Rightarrow> uint32_t \<times> timeDelta_t" where
  "measurement s = (lastMeasurementReceivedAt s, hcsr04SonarPulseTravelTime s)"

text \<open>The events of the scenario \<open>echo_290us\<close>.\<close>

definition history_290us :: "event list" where
  "history_290us = [StartReading 0, EchoEdge True 5000 5, EchoEdge False 5290 6]"

subsection \<open>Readings\<close>

text \<open>A reading as the specification has it: a distance in range or one of the two sentinels.\<close>

definition valid_reading :: "build \<Rightarrow> int32_t \<Rightarrow> bool" where
  "valid_reading b d =
     (in_range_cm d \<or> d = RANGEFINDER_OUT_OF_RANGE b \<or> d = RANGEFINDER_HARDWARE_FAILURE b)"

text \<open>
  Every measurement the run publishes has a travel time that is not negative as a
  \<^verbatim>\<open>timeDelta_t\<close>: the falling edge comes less than \<open>2 ^ 31\<close> us after \<^verbatim>\<open>timing_start\<close>.
\<close>

fun short_pulses :: "build \<Rightarrow> event list \<Rightarrow> hcsr04 \<Rightarrow> bool" where
  "short_pulses b [] s = True"
| "short_pulses b (EchoEdge echo us ms # es) s =
     ((echo \<or> us \<le> timing_start s \<or> 0 \<le> sint (us - timing_start s)) \<and>
      short_pulses b es (step b (EchoEdge echo us ms) s))"
| "short_pulses b (e # es) s = short_pulses b es (step b e s)"

section \<open>Properties\<close>

subsection \<open>Division by 59\<close>

lemma abs_sdiv_59: "59 * \<bar>x sdiv 59\<bar> \<le> \<bar>x::int\<bar>"
proof -
  define a q r where "a = \<bar>x\<bar>" and "q = a div 59" and "r = a mod 59"
  have "a = 59 * q + r" by (simp add: q_def r_def)
  moreover have "0 \<le> r" by (simp add: r_def)
  ultimately have "59 * q \<le> a" by linarith
  moreover have "0 \<le> q" by (simp add: q_def a_def pos_imp_zdiv_nonneg_iff)
  moreover have "\<bar>x sdiv 59\<bar> = (if x = 0 then 0 else q)"
    by (simp add: signed_divide_int_def abs_mult abs_sgn_eq q_def a_def)
  ultimately show ?thesis by (simp add: a_def split: if_splits)
qed

text \<open>The quotient fits an \<^verbatim>\<open>int32_t\<close>: the division never wraps.\<close>

lemma sint_int32_div_59:
  "sint (int32_div t 59) = sint t sdiv 59"
proof -
  define v w where "v = sint t" and "w = v sdiv 59"
  have "- 2147483648 \<le> v" and "v < 2147483648"
    using sint_range_size [of t] by (simp_all add: word_size v_def)
  moreover have "59 * \<bar>w\<bar> \<le> \<bar>v\<bar>"
    unfolding w_def by (rule abs_sdiv_59)
  ultimately have "- 2147483648 \<le> w" and "w < 2147483648"
    by linarith+
  then have "signed_take_bit 31 w = w"
    by (intro signed_take_bit_int_eq_self) simp_all
  then have "sint (word_of_int w :: 32 word) = w"
    by (simp add: sint_sbintrunc')
  then show ?thesis
    by (simp add: int32_div_def w_def v_def)
qed

lemma sdiv_59_nonneg: "0 \<le> x \<Longrightarrow> x sdiv 59 = x div (59::int)"
  by (cases "x = 0") (simp_all add: signed_divide_int_def)

subsection \<open>Signed reading of a 32-bit word\<close>

lemma sint_32:
  "sint (w :: 32 word) = (if uint w < 2147483648 then uint w else uint w - 4294967296)"
proof -
  have r: "0 \<le> uint w" "uint w < 4294967296"
    using uint_lt2p [of w] by simp_all
  define x where "x = uint w + 2147483648"
  have s: "sint w = x mod 4294967296 - 2147483648"
    by (simp add: sint_uint signed_take_bit_eq_take_bit_shift take_bit_eq_mod x_def)
  show ?thesis
  proof (cases "uint w < 2147483648")
    case True
    then have "0 \<le> x" "x < 4294967296" using r by (simp_all add: x_def)
    then have "x mod 4294967296 = x" by simp
    then show ?thesis using True by (simp add: s) (simp add: x_def)
  next
    case False
    then have "0 \<le> x - 4294967296" "x - 4294967296 < 4294967296"
      using r by (simp_all add: x_def)
    then have "(x - 4294967296) mod 4294967296 = x - 4294967296"
      by (rule mod_pos_pos_trivial)
    moreover have "(x - 4294967296) mod 4294967296 = x mod 4294967296"
      by (rule minus_mod_self2)
    ultimately have "x mod 4294967296 = x - 4294967296" by simp
    then show ?thesis using False by (simp add: s) (simp add: x_def)
  qed
qed

subsection \<open>The scenarios, evaluated\<close>

lemma echo_290us_eq:
  "echo_290us = \<lparr>hcsr04SonarPulseTravelTime = 290, lastMeasurementReceivedAt = 6,
      lastMeasurementStartedAt = 0, timing_start = 5000,
      lastCalculatedDistance = - 1, triggerIO = []\<rparr>"
  by (simp add: echo_290us_def hcsr04_declared_def rangefinder_h_def
      hcsr04_start_reading_def hcsr04_extiHandler_def HCSR04_MinimumFiringIntervalMs_def)

lemma echo_23601us_eq:
  "echo_23601us = \<lparr>hcsr04SonarPulseTravelTime = 23601, lastMeasurementReceivedAt = 29,
      lastMeasurementStartedAt = 0, timing_start = 5000,
      lastCalculatedDistance = - 1, triggerIO = []\<rparr>"
  by (simp add: echo_23601us_def hcsr04_declared_def rangefinder_h_def
      hcsr04_start_reading_def hcsr04_extiHandler_def HCSR04_MinimumFiringIntervalMs_def)

lemma echo_25000us_eq:
  "echo_25000us = \<lparr>hcsr04SonarPulseTravelTime = 25000, lastMeasurementReceivedAt = 30,
      lastMeasurementStartedAt = 0, timing_start = 5000,
      lastCalculatedDistance = - 1, triggerIO = []\<rparr>"
  by (simp add: echo_25000us_def hcsr04_declared_def rangefinder_h_def
      hcsr04_start_reading_def hcsr04_extiHandler_def HCSR04_MinimumFiringIntervalMs_def)

lemma fired_at_100ms_eq:
  "fired_at_100ms = \<lparr>hcsr04SonarPulseTravelTime = 0, lastMeasurementReceivedAt = 0,
      lastMeasurementStartedAt = 100, timing_start = 0,
      lastCalculatedDistance = - 1, triggerIO = [IOHi, delayMicroseconds 11, IOLo]\<rparr>"
  by (simp add: fired_at_100ms_def hcsr04_declared_def rangefinder_h_def trigger_pulse_def
      hcsr04_start_reading_def HCSR04_MinimumFiringIntervalMs_def)

lemma fired_before_wrap_eq:
  "fired_before_wrap = \<lparr>hcsr04SonarPulseTravelTime = 0, lastMeasurementReceivedAt = 0,
      lastMeasurementStartedAt = 4294967286, timing_start = 0,
      lastCalculatedDistance = - 1, triggerIO = [IOHi, delayMicroseconds 11, IOLo]\<rparr>"
  by (simp add: fired_before_wrap_def hcsr04_declared_def rangefinder_h_def trigger_pulse_def
      hcsr04_start_reading_def HCSR04_MinimumFiringIntervalMs_def)

lemma history_290us_run:
  "run rangefinder_h history_290us (hcsr04_declared rangefinder_h) = echo_290us"
  by (simp add: echo_290us_def history_290us_def)

subsection \<open>A fresh measurement\<close>

text \<open>What \<^verbatim>\<open>hcsr04_get_distance\<close> does in its first branch.\<close>

lemma fresh_result:
  assumes "lastMeasurementReceivedAt s > lastMeasurementStartedAt s"
  shows "hcsr04_get_distance b now s =
    (let d = (if sint (hcsr04SonarPulseTravelTime s) sdiv 59 > 400
              then RANGEFINDER_OUT_OF_RANGE b else int32_div (hcsr04SonarPulseTravelTime s) 59)
     in (d, s\<lparr>lastCalculatedDistance := d\<rparr>))"
  using assms
  by (simp add: hcsr04_get_distance_def Let_def sint_int32_div_59 HCSR04_MAX_RANGE_CM_def)

text \<open>
  C1. When a fresh measurement is available (\<open>lastMeasurementReceivedAt > lastMeasurementStartedAt\<close>)
  and the published travel time \<open>T\<close> satisfies \<open>0 < T \<le> 59 * 400\<close> microseconds,
  \<^verbatim>\<open>hcsr04_get_distance\<close> returns \<open>T div 59\<close>, the value lies in \<open>[0, 400]\<close>, and it is
  stored as the cached distance (nothing else of the state changes).
\<close>

theorem hcsr04_get_distance_fresh_in_range:
  assumes "lastMeasurementReceivedAt s > lastMeasurementStartedAt s"
    and "0 < sint (hcsr04SonarPulseTravelTime s)"
    and "sint (hcsr04SonarPulseTravelTime s) \<le> 59 * 400"
  shows "sint (fst (hcsr04_get_distance b now s)) = sint (hcsr04SonarPulseTravelTime s) div 59
    \<and> 0 \<le> sint (fst (hcsr04_get_distance b now s))
    \<and> sint (fst (hcsr04_get_distance b now s)) \<le> 400
    \<and> snd (hcsr04_get_distance b now s) =
        s\<lparr>lastCalculatedDistance := fst (hcsr04_get_distance b now s)\<rparr>"
proof -
  define T where "T = sint (hcsr04SonarPulseTravelTime s)"
  have T: "0 < T" "T \<le> 23600" using assms by (simp_all add: T_def)
  have q: "T sdiv 59 = T div 59" using T by (simp add: sdiv_59_nonneg)
  have "T div 59 \<le> 23600 div 59" using T by (intro zdiv_mono1) simp_all
  then have hi: "T div 59 \<le> 400" by simp
  have lo: "0 \<le> T div 59" using T by (simp add: pos_imp_zdiv_nonneg_iff)
  show ?thesis
    using hi lo q fresh_result [OF assms(1), of b now]
    by (simp add: T_def [symmetric] Let_def sint_int32_div_59)
qed

theorem hcsr04_get_distance_fresh_in_range_witness:
  "lastMeasurementReceivedAt echo_290us > lastMeasurementStartedAt echo_290us
   \<and> 0 < sint (hcsr04SonarPulseTravelTime echo_290us)
   \<and> sint (hcsr04SonarPulseTravelTime echo_290us) \<le> 59 * 400
   \<and> sint (fst (hcsr04_get_distance rangefinder_h 7 echo_290us)) = 4
   \<and> snd (hcsr04_get_distance rangefinder_h 7 echo_290us) =
       echo_290us\<lparr>lastCalculatedDistance := fst (hcsr04_get_distance rangefinder_h 7 echo_290us)\<rparr>"
proof -
  have h: "lastMeasurementReceivedAt echo_290us > lastMeasurementStartedAt echo_290us"
    "0 < sint (hcsr04SonarPulseTravelTime echo_290us)"
    "sint (hcsr04SonarPulseTravelTime echo_290us) \<le> 59 * 400"
    by (simp_all add: echo_290us_eq)
  have "sint (hcsr04SonarPulseTravelTime echo_290us) div 59 = 4"
    by (simp add: echo_290us_eq)
  then show ?thesis
    using h hcsr04_get_distance_fresh_in_range [OF h, of rangefinder_h 7] by simp
qed

text \<open>
  C2, as stated: a fresh measurement with \<open>T > 59 * 400\<close> yields the out-of-range sentinel.
  The code divides first and compares the quotient with 400, so a travel time of 23601 us
  yields 400 cm.
\<close>

theorem hcsr04_get_distance_23601_counterexample:
  "lastMeasurementReceivedAt echo_23601us > lastMeasurementStartedAt echo_23601us
   \<and> sint (hcsr04SonarPulseTravelTime echo_23601us) > 59 * 400
   \<and> fst (hcsr04_get_distance rangefinder_h 30 echo_23601us) = 400
   \<and> fst (hcsr04_get_distance rangefinder_h 30 echo_23601us)
        \<noteq> RANGEFINDER_OUT_OF_RANGE rangefinder_h"
  by (simp add: echo_23601us_eq hcsr04_get_distance_def int32_div_def Let_def
      HCSR04_MAX_RANGE_CM_def signed_divide_int_def rangefinder_h_def)

text \<open>
  C2, amended: when a fresh measurement is available and the published travel time \<open>T\<close>
  satisfies \<open>T \<ge> 59 * 401\<close> microseconds (that is, \<open>T div 59 > 400\<close>),
  \<^verbatim>\<open>hcsr04_get_distance\<close> returns the out-of-range sentinel, and caches it.
\<close>

theorem hcsr04_get_distance_fresh_out_of_range:
  assumes "lastMeasurementReceivedAt s > lastMeasurementStartedAt s"
    and "sint (hcsr04SonarPulseTravelTime s) \<ge> 59 * 401"
  shows "hcsr04_get_distance b now s =
    (RANGEFINDER_OUT_OF_RANGE b, s\<lparr>lastCalculatedDistance := RANGEFINDER_OUT_OF_RANGE b\<rparr>)"
proof -
  define T where "T = sint (hcsr04SonarPulseTravelTime s)"
  have T: "23659 \<le> T" using assms by (simp add: T_def)
  have q: "T sdiv 59 = T div 59" using T by (simp add: sdiv_59_nonneg)
  have "23659 div 59 \<le> T div 59" using T by (intro zdiv_mono1) simp_all
  then have "400 < T div 59" by simp
  then show ?thesis
    using q fresh_result [OF assms(1), of b now]
    by (simp add: T_def [symmetric] Let_def)
qed

theorem hcsr04_get_distance_fresh_out_of_range_witness:
  "lastMeasurementReceivedAt echo_25000us > lastMeasurementStartedAt echo_25000us
   \<and> sint (hcsr04SonarPulseTravelTime echo_25000us) \<ge> 59 * 401
   \<and> hcsr04_get_distance rangefinder_h 31 echo_25000us =
       (RANGEFINDER_OUT_OF_RANGE rangefinder_h,
        echo_25000us\<lparr>lastCalculatedDistance := RANGEFINDER_OUT_OF_RANGE rangefinder_h\<rparr>)"
proof -
  have h: "lastMeasurementReceivedAt echo_25000us > lastMeasurementStartedAt echo_25000us"
    "sint (hcsr04SonarPulseTravelTime echo_25000us) \<ge> 59 * 401"
    by (simp_all add: echo_25000us_eq)
  show ?thesis
    using h hcsr04_get_distance_fresh_out_of_range [OF h, of rangefinder_h 31] by simp
qed

text \<open>Between the two bounds the result is 400.\<close>

lemma hcsr04_get_distance_fresh_400:
  assumes "lastMeasurementReceivedAt s > lastMeasurementStartedAt s"
    and "59 * 400 \<le> sint (hcsr04SonarPulseTravelTime s)"
    and "sint (hcsr04SonarPulseTravelTime s) < 59 * 401"
  shows "hcsr04_get_distance b now s = (400, s\<lparr>lastCalculatedDistance := 400\<rparr>)"
proof -
  define T where "T = sint (hcsr04SonarPulseTravelTime s)"
  have T: "23600 \<le> T" "T \<le> 23658" using assms by (simp_all add: T_def)
  have q: "T sdiv 59 = T div 59" using T by (simp add: sdiv_59_nonneg)
  have "23600 div 59 \<le> T div 59" "T div 59 \<le> 23658 div 59"
    using T by (intro zdiv_mono1; simp)+
  then have "T div 59 = 400" by simp
  then show ?thesis
    using q fresh_result [OF assms(1), of b now]
    by (simp add: T_def [symmetric] Let_def int32_div_def)
qed

subsection \<open>No fresh measurement\<close>

text \<open>What \<^verbatim>\<open>hcsr04_get_distance\<close> does in its other two branches, and a trigger that fires.\<close>

lemma stale_result:
  assumes "lastMeasurementReceivedAt s \<le> lastMeasurementStartedAt s"
  shows "hcsr04_get_distance b now s =
    (if now - lastMeasurementStartedAt s > 60
     then (RANGEFINDER_HARDWARE_FAILURE b,
           s\<lparr>lastCalculatedDistance := RANGEFINDER_HARDWARE_FAILURE b\<rparr>)
     else (lastCalculatedDistance s, s))"
proof -
  have "\<not> lastMeasurementStartedAt s < lastMeasurementReceivedAt s"
    using assms by (simp add: not_less)
  then show ?thesis
    by (simp add: hcsr04_get_distance_def Let_def HCSR04_MinimumFiringIntervalMs_def)
qed

lemma fired_result:
  assumes "t0 > lastMeasurementStartedAt s0 + 60"
  shows "hcsr04_start_reading b t0 s0 =
    s0\<lparr>lastMeasurementStartedAt := t0, triggerIO := triggerIO s0 @ trigger_pulse b\<rparr>"
  using assms by (simp add: hcsr04_start_reading_def HCSR04_MinimumFiringIntervalMs_def)

text \<open>
  C4. When no fresh measurement is available (\<open>lastMeasurementReceivedAt \<le> lastMeasurementStartedAt\<close>)
  and \<open>now - lastMeasurementStartedAt \<le> 60\<close> ms, \<^verbatim>\<open>hcsr04_get_distance\<close> returns the cached
  distance and changes nothing of the state. In particular, after a trigger that fires at
  \<open>t0\<close> with no echo received since, a call at \<open>t0 + 30\<close> ms returns the distance that was
  cached before the trigger.
\<close>

theorem hcsr04_get_distance_waiting:
  "(lastMeasurementReceivedAt s \<le> lastMeasurementStartedAt s
      \<and> now - lastMeasurementStartedAt s \<le> 60
    \<longrightarrow> hcsr04_get_distance b now s = (lastCalculatedDistance s, s))
   \<and> (t0 > lastMeasurementStartedAt s0 + 60 \<and> lastMeasurementReceivedAt s0 \<le> t0
    \<longrightarrow> lastMeasurementStartedAt (hcsr04_start_reading b t0 s0) = t0
      \<and> hcsr04_get_distance b (t0 + 30) (hcsr04_start_reading b t0 s0)
          = (lastCalculatedDistance s0, hcsr04_start_reading b t0 s0))"
proof (intro conjI impI; elim conjE)
  assume "lastMeasurementReceivedAt s \<le> lastMeasurementStartedAt s"
    and "now - lastMeasurementStartedAt s \<le> 60"
  then show "hcsr04_get_distance b now s = (lastCalculatedDistance s, s)"
    using leD [of "now - lastMeasurementStartedAt s" 60] by (simp add: stale_result)
next
  assume f: "t0 > lastMeasurementStartedAt s0 + 60"
  then show "lastMeasurementStartedAt (hcsr04_start_reading b t0 s0) = t0"
    by (simp add: fired_result)
next
  assume f: "t0 > lastMeasurementStartedAt s0 + 60" and r: "lastMeasurementReceivedAt s0 \<le> t0"
  let ?s = "hcsr04_start_reading b t0 s0"
  have "lastMeasurementReceivedAt ?s \<le> lastMeasurementStartedAt ?s"
    using r by (simp add: fired_result [OF f])
  then have "hcsr04_get_distance b (t0 + 30) ?s = (lastCalculatedDistance ?s, ?s)"
    by (simp add: stale_result fired_result [OF f])
  then show "hcsr04_get_distance b (t0 + 30) ?s = (lastCalculatedDistance s0, ?s)"
    by (simp add: fired_result [OF f])
qed

theorem hcsr04_get_distance_waiting_witness:
  "lastMeasurementReceivedAt fired_at_100ms \<le> lastMeasurementStartedAt fired_at_100ms
   \<and> 130 - lastMeasurementStartedAt fired_at_100ms \<le> 60
   \<and> hcsr04_get_distance rangefinder_h 130 fired_at_100ms
        = (lastCalculatedDistance fired_at_100ms, fired_at_100ms)
   \<and> (100 :: 32 word) > lastMeasurementStartedAt echo_290us + 60
   \<and> lastMeasurementReceivedAt echo_290us \<le> 100
   \<and> hcsr04_get_distance rangefinder_h (100 + 30) (hcsr04_start_reading rangefinder_h 100 echo_290us)
        = (lastCalculatedDistance echo_290us, hcsr04_start_reading rangefinder_h 100 echo_290us)"
proof -
  have h1: "lastMeasurementReceivedAt fired_at_100ms \<le> lastMeasurementStartedAt fired_at_100ms
      \<and> 130 - lastMeasurementStartedAt fired_at_100ms \<le> 60"
    by (simp add: fired_at_100ms_eq)
  have h2: "(100 :: 32 word) > lastMeasurementStartedAt echo_290us + 60
      \<and> lastMeasurementReceivedAt echo_290us \<le> 100"
    by (simp add: echo_290us_eq)
  show ?thesis
    using h1 h2
      hcsr04_get_distance_waiting [where s = fired_at_100ms and now = 130
        and b = rangefinder_h and ?t0.0 = 100 and ?s0.0 = echo_290us]
    by simp
qed

text \<open>
  The failure sentinel stays in the cache, and is what every call returns, as long as the
  calls find no fresh measurement.
\<close>

lemma step_keeps_cache:
  "lastMeasurementReceivedAt s \<le> lastMeasurementStartedAt s \<or> (\<forall>now. e \<noteq> GetDistance now) \<Longrightarrow>
   lastCalculatedDistance s = RANGEFINDER_HARDWARE_FAILURE b \<Longrightarrow>
   lastCalculatedDistance (step b e s) = RANGEFINDER_HARDWARE_FAILURE b"
  by (cases e)
    (auto simp: hcsr04_init_def hcsr04_start_reading_def hcsr04_extiHandler_def stale_result Let_def)

lemma failure_persists:
  "lastCalculatedDistance s = RANGEFINDER_HARDWARE_FAILURE b \<Longrightarrow> stale_reads b evs s \<Longrightarrow>
   \<forall>v \<in> set (returned b evs s). v = RANGEFINDER_HARDWARE_FAILURE b"
proof (induction evs arbitrary: s)
  case Nil
  then show ?case by simp
next
  case (Cons e evs)
  show ?case
  proof (cases e)
    case (GetDistance now)
    with Cons.prems have st: "lastMeasurementReceivedAt s \<le> lastMeasurementStartedAt s"
      and rest: "stale_reads b evs (step b e s)"
      by simp_all
    have "lastCalculatedDistance (step b e s) = RANGEFINDER_HARDWARE_FAILURE b"
      using st Cons.prems(1) by (intro step_keeps_cache) simp_all
    then have "\<forall>v \<in> set (returned b evs (step b e s)). v = RANGEFINDER_HARDWARE_FAILURE b"
      using rest by (rule Cons.IH)
    moreover have "fst (hcsr04_get_distance b now s) = RANGEFINDER_HARDWARE_FAILURE b"
      using st Cons.prems(1) by (simp add: stale_result)
    ultimately show ?thesis using GetDistance by simp
  next
    case Init
    with Cons.prems have rest: "stale_reads b evs (step b e s)" by simp
    have "lastCalculatedDistance (step b e s) = RANGEFINDER_HARDWARE_FAILURE b"
      using Init Cons.prems(1) by (intro step_keeps_cache) simp_all
    then show ?thesis using rest Init Cons.IH by simp
  next
    case (StartReading now)
    with Cons.prems have rest: "stale_reads b evs (step b e s)" by simp
    have "lastCalculatedDistance (step b e s) = RANGEFINDER_HARDWARE_FAILURE b"
      using StartReading Cons.prems(1) by (intro step_keeps_cache) simp_all
    then show ?thesis using rest StartReading Cons.IH by simp
  next
    case (EchoEdge echo us ms)
    with Cons.prems have rest: "stale_reads b evs (step b e s)" by simp
    have "lastCalculatedDistance (step b e s) = RANGEFINDER_HARDWARE_FAILURE b"
      using EchoEdge Cons.prems(1) by (intro step_keeps_cache) simp_all
    then show ?thesis using rest EchoEdge Cons.IH by simp
  qed
qed

text \<open>
  C5. When no fresh measurement is available (\<open>lastMeasurementReceivedAt \<le> lastMeasurementStartedAt\<close>)
  and \<open>now - lastMeasurementStartedAt > 60\<close> ms, \<^verbatim>\<open>hcsr04_get_distance\<close> returns the
  hardware-failure sentinel and overwrites the cached distance with it; and whatever calls and
  echo edges follow, every later call that finds no fresh measurement returns that sentinel.
\<close>

theorem hcsr04_get_distance_hardware_failure:
  assumes "lastMeasurementReceivedAt s \<le> lastMeasurementStartedAt s"
    and "now - lastMeasurementStartedAt s > 60"
  shows "fst (hcsr04_get_distance b now s) = RANGEFINDER_HARDWARE_FAILURE b
    \<and> snd (hcsr04_get_distance b now s) =
        s\<lparr>lastCalculatedDistance := RANGEFINDER_HARDWARE_FAILURE b\<rparr>
    \<and> (\<forall>evs. stale_reads b evs (snd (hcsr04_get_distance b now s)) \<longrightarrow>
          (\<forall>v \<in> set (returned b evs (snd (hcsr04_get_distance b now s))).
             v = RANGEFINDER_HARDWARE_FAILURE b))"
proof -
  have r: "hcsr04_get_distance b now s =
      (RANGEFINDER_HARDWARE_FAILURE b, s\<lparr>lastCalculatedDistance := RANGEFINDER_HARDWARE_FAILURE b\<rparr>)"
    using assms by (simp add: stale_result)
  have "\<forall>v \<in> set (returned b evs (snd (hcsr04_get_distance b now s))).
      v = RANGEFINDER_HARDWARE_FAILURE b"
    if "stale_reads b evs (snd (hcsr04_get_distance b now s))" for evs
    using that by (intro failure_persists) (simp_all add: r)
  then show ?thesis using r by simp
qed

lemma silent_run_eval:
  "stale_reads rangefinder_h silent_run (fired_at_100ms\<lparr>lastCalculatedDistance := - 2\<rparr>)"
  "returned rangefinder_h silent_run (fired_at_100ms\<lparr>lastCalculatedDistance := - 2\<rparr>)
     = [- 2, - 2, - 2]"
  by (simp_all add: silent_run_def fired_at_100ms_eq hcsr04_get_distance_def Let_def
      hcsr04_start_reading_def hcsr04_extiHandler_def hcsr04_init_def rangefinder_h_def
      HCSR04_MinimumFiringIntervalMs_def trigger_pulse_def)

theorem hcsr04_get_distance_hardware_failure_witness:
  "lastMeasurementReceivedAt fired_at_100ms \<le> lastMeasurementStartedAt fired_at_100ms
   \<and> 161 - lastMeasurementStartedAt fired_at_100ms > 60
   \<and> fst (hcsr04_get_distance rangefinder_h 161 fired_at_100ms) = - 2
   \<and> lastCalculatedDistance (snd (hcsr04_get_distance rangefinder_h 161 fired_at_100ms)) = - 2
   \<and> stale_reads rangefinder_h silent_run (snd (hcsr04_get_distance rangefinder_h 161 fired_at_100ms))
   \<and> returned rangefinder_h silent_run (snd (hcsr04_get_distance rangefinder_h 161 fired_at_100ms))
       = [- 2, - 2, - 2]"
proof -
  have h: "lastMeasurementReceivedAt fired_at_100ms \<le> lastMeasurementStartedAt fired_at_100ms"
    "161 - lastMeasurementStartedAt fired_at_100ms > 60"
    by (simp_all add: fired_at_100ms_eq)
  have hw: "RANGEFINDER_HARDWARE_FAILURE rangefinder_h = - 2"
    by (simp add: rangefinder_h_def)
  note t = hcsr04_get_distance_hardware_failure [OF h, of rangefinder_h, unfolded hw]
  have s: "snd (hcsr04_get_distance rangefinder_h 161 fired_at_100ms) =
      fired_at_100ms\<lparr>lastCalculatedDistance := - 2\<rparr>"
    using t by simp
  show ?thesis
    using h t by (simp add: s silent_run_eval)
qed

subsection \<open>The state at declaration\<close>

text \<open>
  Until an echo is published \<^verbatim>\<open>lastMeasurementReceivedAt\<close> stays zero, so no call finds a
  fresh measurement and the cache holds one of the two sentinels.
\<close>

lemma unmeasured_step:
  assumes "lastMeasurementReceivedAt s = 0"
    and "lastCalculatedDistance s = RANGEFINDER_OUT_OF_RANGE b
         \<or> lastCalculatedDistance s = RANGEFINDER_HARDWARE_FAILURE b"
    and "unmeasured b [e] s"
  shows "lastMeasurementReceivedAt (step b e s) = 0
    \<and> (lastCalculatedDistance (step b e s) = RANGEFINDER_OUT_OF_RANGE b
         \<or> lastCalculatedDistance (step b e s) = RANGEFINDER_HARDWARE_FAILURE b)"
proof (cases e)
  case (GetDistance now)
  then show ?thesis using assms(1,2) by (auto simp: stale_result)
next
  case (EchoEdge echo us ms)
  then have "echo \<or> \<not> timing_start s < us" using assms(3) by (auto simp: not_less)
  then show ?thesis using assms(1,2) EchoEdge by (auto simp: hcsr04_extiHandler_def)
qed (use assms(1,2) in \<open>auto simp: hcsr04_init_def hcsr04_start_reading_def\<close>)

lemma unmeasured_Cons:
  "unmeasured b (e # es) s = (unmeasured b [e] s \<and> unmeasured b es (step b e s))"
  by (cases e) simp_all

lemma unmeasured_returns_sentinels:
  "lastMeasurementReceivedAt s = 0 \<Longrightarrow>
   lastCalculatedDistance s = RANGEFINDER_OUT_OF_RANGE b
     \<or> lastCalculatedDistance s = RANGEFINDER_HARDWARE_FAILURE b \<Longrightarrow>
   unmeasured b evs s \<Longrightarrow>
   \<forall>v \<in> set (returned b evs s).
     v = RANGEFINDER_OUT_OF_RANGE b \<or> v = RANGEFINDER_HARDWARE_FAILURE b"
proof (induction evs arbitrary: s)
  case Nil
  then show ?case by simp
next
  case (Cons e evs)
  from Cons.prems(3) have e: "unmeasured b [e] s" and rest: "unmeasured b evs (step b e s)"
    using unmeasured_Cons [of b e evs s] by simp_all
  note st = unmeasured_step [OF Cons.prems(1,2) e]
  have tl: "\<forall>v \<in> set (returned b evs (step b e s)).
      v = RANGEFINDER_OUT_OF_RANGE b \<or> v = RANGEFINDER_HARDWARE_FAILURE b"
    using st rest by (intro Cons.IH) simp_all
  show ?case
  proof (cases e)
    case (GetDistance now)
    have "fst (hcsr04_get_distance b now s) = lastCalculatedDistance (step b e s)"
      using GetDistance by (simp add: hcsr04_get_distance_def Let_def)
    then show ?thesis using st tl GetDistance by auto
  qed (use tl in simp_all)
qed

text \<open>
  C9. \<^verbatim>\<open>hcsr04_init\<close> changes no state. In the state at declaration the trigger and
  measurement timestamps and the travel time are zero and the cached distance is the
  out-of-range sentinel. A call of \<^verbatim>\<open>hcsr04_get_distance\<close> in that state returns that
  sentinel, or the hardware-failure sentinel once more than 60 ms have passed, never a
  distance in range; and so does every call made before the first measurement is published.
\<close>

theorem hcsr04_init_and_declared_state:
  "hcsr04_init s = s
   \<and> lastMeasurementStartedAt (hcsr04_declared b) = 0
   \<and> lastMeasurementReceivedAt (hcsr04_declared b) = 0
   \<and> hcsr04SonarPulseTravelTime (hcsr04_declared b) = 0
   \<and> lastCalculatedDistance (hcsr04_declared b) = RANGEFINDER_OUT_OF_RANGE b
   \<and> fst (hcsr04_get_distance b now (hcsr04_declared b)) =
       (if now > 60 then RANGEFINDER_HARDWARE_FAILURE b else RANGEFINDER_OUT_OF_RANGE b)
   \<and> (sentinels_distinct b \<longrightarrow> \<not> in_range_cm (fst (hcsr04_get_distance b now (hcsr04_declared b))))
   \<and> (\<forall>evs. unmeasured b evs (hcsr04_declared b) \<longrightarrow>
        (\<forall>v \<in> set (returned b evs (hcsr04_declared b)).
           v = RANGEFINDER_OUT_OF_RANGE b \<or> v = RANGEFINDER_HARDWARE_FAILURE b))"
proof -
  have g: "fst (hcsr04_get_distance b now (hcsr04_declared b)) =
       (if now > 60 then RANGEFINDER_HARDWARE_FAILURE b else RANGEFINDER_OUT_OF_RANGE b)"
    by (simp add: stale_result hcsr04_declared_def)
  have r: "\<forall>v \<in> set (returned b evs (hcsr04_declared b)).
           v = RANGEFINDER_OUT_OF_RANGE b \<or> v = RANGEFINDER_HARDWARE_FAILURE b"
    if "unmeasured b evs (hcsr04_declared b)" for evs
    using that by (intro unmeasured_returns_sentinels) (simp_all add: hcsr04_declared_def)
  have d: "\<not> in_range_cm (fst (hcsr04_get_distance b now (hcsr04_declared b)))"
    if "sentinels_distinct b"
    using that by (simp add: g sentinels_distinct_def)
  show ?thesis
    using g r d by (simp add: hcsr04_init_def hcsr04_declared_def)
qed

lemma first_calls_eval:
  "unmeasured rangefinder_h first_calls (hcsr04_declared rangefinder_h)"
  "returned rangefinder_h first_calls (hcsr04_declared rangefinder_h) = [- 1, - 1, - 1, - 2]"
  by (simp_all add: first_calls_def hcsr04_declared_def hcsr04_get_distance_def Let_def
      hcsr04_start_reading_def hcsr04_extiHandler_def hcsr04_init_def rangefinder_h_def
      HCSR04_MinimumFiringIntervalMs_def trigger_pulse_def)

theorem hcsr04_init_and_declared_state_witness:
  "sentinels_distinct rangefinder_h
   \<and> hcsr04_init (hcsr04_declared rangefinder_h) = hcsr04_declared rangefinder_h
   \<and> fst (hcsr04_get_distance rangefinder_h 30 (hcsr04_declared rangefinder_h)) = - 1
   \<and> \<not> in_range_cm (fst (hcsr04_get_distance rangefinder_h 30 (hcsr04_declared rangefinder_h)))
   \<and> unmeasured rangefinder_h first_calls (hcsr04_declared rangefinder_h)
   \<and> returned rangefinder_h first_calls (hcsr04_declared rangefinder_h) = [- 1, - 1, - 1, - 2]"
proof -
  have h: "sentinels_distinct rangefinder_h"
    by (simp add: sentinels_distinct_def rangefinder_h_def in_range_cm_def HCSR04_MAX_RANGE_CM_def)
  have v: "RANGEFINDER_OUT_OF_RANGE rangefinder_h = - 1"
    by (simp add: rangefinder_h_def)
  note t = hcsr04_init_and_declared_state
      [where s = "hcsr04_declared rangefinder_h" and b = rangefinder_h and now = 30]
  have i: "hcsr04_init (hcsr04_declared rangefinder_h) = hcsr04_declared rangefinder_h"
    using t by blast
  have a: "fst (hcsr04_get_distance rangefinder_h 30 (hcsr04_declared rangefinder_h)) = - 1"
    using t by (simp add: v)
  have c: "\<not> in_range_cm (fst (hcsr04_get_distance rangefinder_h 30 (hcsr04_declared rangefinder_h)))"
    using h t by blast
  show ?thesis
    by (intro conjI h i a c first_calls_eval)
qed

subsection \<open>The cache and the result\<close>

text \<open>
  C10. After every call of \<^verbatim>\<open>hcsr04_get_distance\<close> the cached distance is the value the call
  returned, and a second call at the same time on the state the first one left returns the
  same value and leaves the state as it is.
\<close>

theorem hcsr04_get_distance_cache_is_result:
  "lastCalculatedDistance (snd (hcsr04_get_distance b now s)) = fst (hcsr04_get_distance b now s)
   \<and> hcsr04_get_distance b now (snd (hcsr04_get_distance b now s)) = hcsr04_get_distance b now s"
  by (simp add: hcsr04_get_distance_def Let_def)

subsection \<open>The trigger\<close>

text \<open>
  \<^verbatim>\<open>hcsr04_start_reading\<close> in 32-bit arithmetic: no state changes when
  \<open>now \<le> lastMeasurementStartedAt + 60\<close>, where the sum wraps; otherwise the time is
  recorded and one pulse is emitted. When \<open>now1 + 60\<close> does not wrap, a call within 60 ms
  of a call at \<open>now1\<close> that fired changes nothing.
\<close>

lemma hcsr04_start_reading_rate_limit:
  "hcsr04_start_reading b now s =
     (if now \<le> lastMeasurementStartedAt s + 60 then s
      else s\<lparr>lastMeasurementStartedAt := now, triggerIO := triggerIO s @ trigger_pulse b\<rparr>)"
  by (simp add: hcsr04_start_reading_def HCSR04_MinimumFiringIntervalMs_def not_less [symmetric])

lemma hcsr04_start_reading_twice:
  assumes "unat now1 + 60 < 2 ^ 32"
    and "lastMeasurementStartedAt s + 60 < now1"
    and "unat now2 \<le> unat now1 + 60"
  shows "hcsr04_start_reading b now2 (hcsr04_start_reading b now1 s)
    = hcsr04_start_reading b now1 s"
proof -
  have "unat (now1 + 60) = unat now1 + unat (60 :: 32 word)"
    using assms(1) by (intro unat_add_lem [THEN iffD1]) simp
  then have "now2 \<le> now1 + 60"
    using assms(3) by (simp add: word_le_nat_alt)
  then show ?thesis
    using assms(2) by (simp add: hcsr04_start_reading_rate_limit not_le [symmetric])
qed

text \<open>
  C3 at \<open>lastMeasurementStartedAt = 4294967286\<close>: the sum \<open>lastMeasurementStartedAt + 60\<close>
  wraps to 50, so a call 5 ms after the trigger fired records the new time and emits a second
  pulse.
\<close>

theorem hcsr04_start_reading_refires_at_wrap:
  "lastMeasurementStartedAt fired_before_wrap = 4294967286
   \<and> triggerIO fired_before_wrap = [IOHi, delayMicroseconds 11, IOLo]
   \<and> unat (4294967291 :: 32 word) = unat (lastMeasurementStartedAt fired_before_wrap) + 5
   \<and> lastMeasurementStartedAt (hcsr04_start_reading rangefinder_h 4294967291 fired_before_wrap)
       = 4294967291
   \<and> triggerIO (hcsr04_start_reading rangefinder_h 4294967291 fired_before_wrap)
       = [IOHi, delayMicroseconds 11, IOLo, IOHi, delayMicroseconds 11, IOLo]"
  by (simp add: fired_before_wrap_eq hcsr04_start_reading_def rangefinder_h_def trigger_pulse_def
      HCSR04_MinimumFiringIntervalMs_def)

subsection \<open>The echo handler\<close>

text \<open>
  A rising edge records \<^verbatim>\<open>timing_start\<close> and nothing else. A falling edge publishes the
  pair when \<open>timing_start < timing_stop\<close> and changes nothing otherwise. The published
  travel time, read as the signed \<^verbatim>\<open>timeDelta_t\<close>, is the elapsed time when that is less
  than \<open>2 ^ 31\<close> us, and the elapsed time minus \<open>2 ^ 32\<close> otherwise.
\<close>

lemma hcsr04_extiHandler_rising:
  "hcsr04_extiHandler True us ms s = s\<lparr>timing_start := us\<rparr>"
  by (simp add: hcsr04_extiHandler_def)

lemma hcsr04_extiHandler_falling:
  "hcsr04_extiHandler False us ms s =
     (if timing_start s < us
      then s\<lparr>lastMeasurementReceivedAt := ms,
             hcsr04SonarPulseTravelTime := us - timing_start s\<rparr>
      else s)"
  by (simp add: hcsr04_extiHandler_def Let_def)

lemma hcsr04_extiHandler_travel_time:
  assumes "timing_start s < us"
  shows "sint (hcsr04SonarPulseTravelTime (hcsr04_extiHandler False us ms s)) =
    (if int (unat us) - int (unat (timing_start s)) < 2147483648
     then int (unat us) - int (unat (timing_start s))
     else int (unat us) - int (unat (timing_start s)) - 4294967296)"
proof -
  have le: "timing_start s \<le> us" using assms by simp
  have n: "unat (timing_start s) \<le> unat us" using le by (simp only: word_le_nat_alt)
  have "uint (us - timing_start s) = int (unat (us - timing_start s))"
    by (rule uint_nat)
  also have "\<dots> = int (unat us - unat (timing_start s))"
    by (simp only: unat_sub [OF le])
  also have "\<dots> = int (unat us) - int (unat (timing_start s))"
    using n by (rule of_nat_diff)
  finally have "uint (us - timing_start s) = int (unat us) - int (unat (timing_start s))" .
  moreover have "hcsr04SonarPulseTravelTime (hcsr04_extiHandler False us ms s)
      = us - timing_start s"
    using assms by (simp add: hcsr04_extiHandler_falling)
  ultimately show ?thesis
    using sint_32 [of "us - timing_start s"] by (simp only:)
qed

lemma hcsr04_extiHandler_discards:
  assumes "us \<le> timing_start s"
  shows "hcsr04_extiHandler False us ms s = s"
  using assms by (simp add: hcsr04_extiHandler_falling not_less [symmetric])

text \<open>
  C6 at an elapsed time of 2147483648 us (a falling edge with \<^verbatim>\<open>timing_start\<close> still zero):
  the elapsed time is positive and the pair is published, with the travel time
  -2147483648 us.
\<close>

theorem hcsr04_extiHandler_negative_travel_time:
  "timing_start (hcsr04_declared rangefinder_h) < 2147483648
   \<and> int (unat (2147483648 :: 32 word)) - int (unat (timing_start (hcsr04_declared rangefinder_h)))
       = 2147483648
   \<and> sint (hcsr04SonarPulseTravelTime
        (hcsr04_extiHandler False 2147483648 2147483 (hcsr04_declared rangefinder_h)))
       = - 2147483648"
  by (simp add: hcsr04_extiHandler_falling hcsr04_declared_def)

subsection \<open>The values returned\<close>

text \<open>
  As long as no published travel time is negative, every value that
  \<^verbatim>\<open>hcsr04_get_distance\<close> returns is a distance in range or one of the two sentinels.
\<close>

lemma get_distance_valid:
  assumes "valid_reading b (lastCalculatedDistance s)"
    and "0 \<le> sint (hcsr04SonarPulseTravelTime s)"
  shows "valid_reading b (fst (hcsr04_get_distance b now s))"
proof (cases "lastMeasurementStartedAt s < lastMeasurementReceivedAt s")
  case True
  define T where "T = sint (hcsr04SonarPulseTravelTime s)"
  have q: "T sdiv 59 = T div 59" using assms(2) by (simp add: T_def sdiv_59_nonneg)
  have "0 \<le> T div 59" using assms(2) by (simp add: T_def pos_imp_zdiv_nonneg_iff)
  then show ?thesis
    using q fresh_result [OF True, of b now]
    by (simp add: T_def [symmetric] Let_def valid_reading_def in_range_cm_def
        sint_int32_div_59 HCSR04_MAX_RANGE_CM_def)
next
  case False
  then have "lastMeasurementReceivedAt s \<le> lastMeasurementStartedAt s" by simp
  then show ?thesis
    using assms(1) by (simp add: stale_result valid_reading_def)
qed

lemma short_pulses_Cons:
  "short_pulses b (e # es) s = (short_pulses b [e] s \<and> short_pulses b es (step b e s))"
  by (cases e) simp_all

lemma short_pulses_step:
  assumes "valid_reading b (lastCalculatedDistance s)"
    and "0 \<le> sint (hcsr04SonarPulseTravelTime s)"
    and "short_pulses b [e] s"
  shows "valid_reading b (lastCalculatedDistance (step b e s))
    \<and> 0 \<le> sint (hcsr04SonarPulseTravelTime (step b e s))"
proof (cases e)
  case (GetDistance now)
  have "lastCalculatedDistance (step b e s) = fst (hcsr04_get_distance b now s)"
    "hcsr04SonarPulseTravelTime (step b e s) = hcsr04SonarPulseTravelTime s"
    using GetDistance by (simp_all add: hcsr04_get_distance_def Let_def)
  then show ?thesis
    using assms(2) get_distance_valid [OF assms(1,2), of now] by simp
next
  case (EchoEdge echo us ms)
  then have "echo \<or> \<not> timing_start s < us \<or> 0 \<le> sint (us - timing_start s)"
    using assms(3) by (auto simp: not_less)
  then show ?thesis
    using assms(1,2) EchoEdge by (auto simp: hcsr04_extiHandler_def)
qed (use assms(1,2) in \<open>simp_all add: hcsr04_init_def hcsr04_start_reading_def\<close>)

lemma short_pulses_return_valid:
  "valid_reading b (lastCalculatedDistance s) \<Longrightarrow>
   0 \<le> sint (hcsr04SonarPulseTravelTime s) \<Longrightarrow>
   short_pulses b evs s \<Longrightarrow>
   \<forall>v \<in> set (returned b evs s). valid_reading b v"
proof (induction evs arbitrary: s)
  case Nil
  then show ?case by simp
next
  case (Cons e evs)
  from Cons.prems(3) have e: "short_pulses b [e] s" and rest: "short_pulses b evs (step b e s)"
    using short_pulses_Cons [of b e evs s] by simp_all
  note st = short_pulses_step [OF Cons.prems(1,2) e]
  have tl: "\<forall>v \<in> set (returned b evs (step b e s)). valid_reading b v"
    using st rest by (intro Cons.IH) simp_all
  show ?case
  proof (cases e)
    case (GetDistance now)
    then show ?thesis
      using tl get_distance_valid [OF Cons.prems(1,2), of now] by simp
  qed (use tl in simp_all)
qed

lemma declared_valid:
  "valid_reading b (lastCalculatedDistance (hcsr04_declared b))"
  "0 \<le> sint (hcsr04SonarPulseTravelTime (hcsr04_declared b))"
  by (simp_all add: hcsr04_declared_def valid_reading_def)

text \<open>
  A falling edge \<open>2 ^ 31\<close> us or more after \<^verbatim>\<open>timing_start\<close> publishes a negative travel
  time, and the call that follows returns its quotient by 59.
\<close>

lemma late_edge_returns:
  assumes "2147483648 \<le> us"
  shows "returned b [EchoEdge False us 2147483, GetDistance 2147484] (hcsr04_declared b)
    = [int32_div us 59]"
proof -
  have p: "(0 :: 32 word) < us" using assms by (simp add: word_less_nat_alt word_le_nat_alt)
  define s where "s = hcsr04_extiHandler False us 2147483 (hcsr04_declared b)"
  have s: "s = (hcsr04_declared b)\<lparr>lastMeasurementReceivedAt := 2147483,
      hcsr04SonarPulseTravelTime := us\<rparr>"
    using p by (simp add: s_def hcsr04_extiHandler_falling hcsr04_declared_def)
  have f: "lastMeasurementStartedAt s < lastMeasurementReceivedAt s"
    by (simp add: s hcsr04_declared_def)
  have "uint us \<ge> 2147483648" using assms by (simp add: word_le_def)
  then have "sint us < 0" using uint_lt2p [of us] sint_32 [of us] by simp
  then have "sint us sdiv 59 \<le> 0"
    by (simp add: signed_divide_int_def sgn_if pos_imp_zdiv_nonneg_iff)
  then have "\<not> 400 < sint us sdiv 59" by simp
  then have "fst (hcsr04_get_distance b 2147484 s) = int32_div us 59"
    using fresh_result [OF f, of b 2147484] by (simp add: Let_def s)
  then show ?thesis by (simp add: s_def)
qed

lemma late_edge_values:
  "int32_div 2147483648 59 = - 36398027"
  "int32_div 2147483707 59 = - 36398026"
  "int32_div 2147483766 59 = - 36398025"
  "\<not> in_range_cm (- 36398027)" "\<not> in_range_cm (- 36398026)" "\<not> in_range_cm (- 36398025)"
  by (simp_all add: int32_div_def signed_divide_int_def in_range_cm_def)

text \<open>
  Whatever the two sentinels of the build are, some call reachable from the state at
  declaration returns a value that is neither a distance in range nor a sentinel.
\<close>

lemma invalid_reading_any_build:
  "\<exists>us. \<exists>v \<in> set (returned b [EchoEdge False us 2147483, GetDistance 2147484] (hcsr04_declared b)).
     \<not> valid_reading b v"
proof (rule ccontr)
  assume n: "\<not> ?thesis"
  have a: "valid_reading b (int32_div us 59)" if "2147483648 \<le> us" for us
  proof -
    from n have "\<forall>v \<in> set (returned b [EchoEdge False us 2147483, GetDistance 2147484]
        (hcsr04_declared b)). valid_reading b v"
      by blast
    then show ?thesis
      unfolding late_edge_returns [OF that] by simp
  qed
  have "valid_reading b (- 36398027)" "valid_reading b (- 36398026)" "valid_reading b (- 36398025)"
    using a [of 2147483648] a [of 2147483707] a [of 2147483766]
    by (simp_all add: late_edge_values)
  then show False
    by (auto simp: valid_reading_def late_edge_values)
qed

text \<open>
  C8 on the run \<open>late_falling_edge\<close> from the state at declaration: the call returns
  -36398027, which is neither in \<open>[0, 400]\<close> nor one of the sentinels -1 and -2.
\<close>

theorem hcsr04_get_distance_negative:
  "returned rangefinder_h late_falling_edge (hcsr04_declared rangefinder_h) = [- 36398027]
   \<and> sint (- 36398027 :: 32 word) = - 36398027
   \<and> \<not> valid_reading rangefinder_h (- 36398027)"
  by (simp add: late_falling_edge_def hcsr04_declared_def hcsr04_extiHandler_falling
      hcsr04_get_distance_def int32_div_def Let_def signed_divide_int_def
      HCSR04_MAX_RANGE_CM_def rangefinder_h_def valid_reading_def in_range_cm_def)

subsection \<open>Preemption by the echo handler\<close>

text \<open>
  The handler writes neither \<^verbatim>\<open>lastMeasurementStartedAt\<close> nor the cache nor the trigger pin.
  Edges that publish nothing leave the pair of the state as it is, and the pair that a state
  reached from the declaration holds is the pair at declaration or one that the handler
  published.
\<close>

lemma interrupts_frame:
  "lastMeasurementStartedAt (interrupts edges s) = lastMeasurementStartedAt s
   \<and> lastCalculatedDistance (interrupts edges s) = lastCalculatedDistance s
   \<and> triggerIO (interrupts edges s) = triggerIO s"
proof (induction edges arbitrary: s)
  case Nil
  show ?case by simp
next
  case (Cons e edges)
  obtain echo us ms where e: "e = (echo, us, ms)" by (cases e)
  show ?case
    using Cons.IH [of "hcsr04_extiHandler echo us ms s"]
    by (simp add: e hcsr04_extiHandler_def Let_def)
qed

lemma quiet_measurement:
  "quiet edges s \<Longrightarrow> measurement (interrupts edges s) = measurement s"
proof (induction edges arbitrary: s)
  case Nil
  show ?case by simp
next
  case (Cons e edges)
  obtain echo us ms where e: "e = (echo, us, ms)" by (cases e)
  from Cons.prems have q: "echo \<or> \<not> timing_start s < us"
    and rest: "quiet edges (hcsr04_extiHandler echo us ms s)"
    by (auto simp: e not_less)
  have "measurement (hcsr04_extiHandler echo us ms s) = measurement s"
    using q by (auto simp: hcsr04_extiHandler_def measurement_def)
  then show ?case
    using Cons.IH [OF rest] by (simp add: e)
qed

lemma step_measurement:
  "measurement (step b e s) \<in> set (measurement s # published b [e] s)"
proof (cases e)
  case (GetDistance now)
  then show ?thesis by (simp add: measurement_def hcsr04_get_distance_def Let_def)
next
  case (EchoEdge echo us ms)
  then show ?thesis by (simp add: measurement_def hcsr04_extiHandler_def Let_def)
qed (simp_all add: measurement_def hcsr04_init_def hcsr04_start_reading_def)

lemma published_Cons:
  "published b (e # es) s = published b [e] s @ published b es (step b e s)"
  by (cases e) simp_all

lemma run_measurement:
  "measurement (run b evs s) \<in> set (measurement s # published b evs s)"
proof (induction evs arbitrary: s)
  case Nil
  show ?case by simp
next
  case (Cons e evs)
  have "measurement (run b evs (step b e s))
      \<in> set (measurement (step b e s) # published b evs (step b e s))"
    by (rule Cons.IH)
  moreover have "measurement (step b e s) \<in> set (measurement s # published b [e] s)"
    by (rule step_measurement)
  ultimately have "measurement (run b evs (step b e s))
      \<in> set (measurement s # published b [e] s @ published b evs (step b e s))"
    by auto
  then show ?case
    by (simp only: run.simps published_Cons [of b e evs s])
qed

lemma preempted_result:
  "fst (hcsr04_get_distance_preempted b now edges s) =
   fst (hcsr04_get_distance b now
     (s\<lparr>hcsr04SonarPulseTravelTime := hcsr04SonarPulseTravelTime (interrupts edges s)\<rparr>))"
  using interrupts_frame [of edges s]
  by (simp add: hcsr04_get_distance_preempted_def hcsr04_get_distance_def Let_def)

text \<open>
  C7, as stated: the pair is published as one snapshot, so that a preempted call never reads a
  new travel time with an old receipt timestamp. The handler stores the two fields one after
  the other and the call loads them one after the other. In the scenario \<open>echo_290us\<close> a
  call preempted between its two loads by the falling edge at 30000 us reads the pair
  (6, 25000); the pairs published are (6, 290) and (30, 25000).
\<close>

theorem hcsr04_get_distance_torn_pair_counterexample:
  "run rangefinder_h history_290us (hcsr04_declared rangefinder_h) = echo_290us
   \<and> published rangefinder_h (history_290us @ [EchoEdge False 30000 30])
        (hcsr04_declared rangefinder_h) = [(6, 290), (30, 25000)]
   \<and> observed_pair [(False, 30000, 30)] echo_290us = Some (6, 25000)
   \<and> (6, 25000) \<notin> set ((0, 0) # [(6, 290), (30, 25000 :: 32 word)] :: (32 word \<times> 32 word) list)
   \<and> fst (hcsr04_get_distance rangefinder_h 30 echo_290us) = 4
   \<and> fst (hcsr04_get_distance_preempted rangefinder_h 30 [(False, 30000, 30)] echo_290us) = - 1"
proof -
  have p: "published rangefinder_h (history_290us @ [EchoEdge False 30000 30])
        (hcsr04_declared rangefinder_h) = [(6, 290), (30, 25000)]"
    by (simp add: history_290us_def hcsr04_declared_def rangefinder_h_def
        hcsr04_start_reading_def hcsr04_extiHandler_def HCSR04_MinimumFiringIntervalMs_def)
  have o: "observed_pair [(False, 30000, 30)] echo_290us = Some (6, 25000)"
    by (simp add: observed_pair_def echo_290us_eq hcsr04_extiHandler_def)
  have g: "fst (hcsr04_get_distance rangefinder_h 30 echo_290us) = 4"
    by (simp add: echo_290us_eq hcsr04_get_distance_def int32_div_def Let_def
        HCSR04_MAX_RANGE_CM_def signed_divide_int_def)
  have t: "fst (hcsr04_get_distance_preempted rangefinder_h 30 [(False, 30000, 30)] echo_290us) = - 1"
    by (simp add: echo_290us_eq hcsr04_get_distance_preempted_def hcsr04_extiHandler_def
        int32_div_def Let_def HCSR04_MAX_RANGE_CM_def signed_divide_int_def rangefinder_h_def)
  show ?thesis
    using p o g t by (simp add: history_290us_run)
qed

text \<open>
  C7, amended: a call of \<^verbatim>\<open>hcsr04_get_distance\<close> that the handler does not preempt between
  its two loads is the call of the sequential model. In a state reached from the declaration,
  a call preempted there only by edges that publish nothing returns what the call not
  preempted returns, and the pair it reads is the pair at declaration or one that the handler
  published. A call preempted there by any edges returns what the call not preempted returns
  on the receipt timestamp from before the edges and the travel time from after them.
\<close>

theorem hcsr04_get_distance_preempted_pair:
  "hcsr04_get_distance_preempted b now [] s = hcsr04_get_distance b now s
   \<and> (quiet edges (run b evs (hcsr04_declared b)) \<longrightarrow>
        fst (hcsr04_get_distance_preempted b now edges (run b evs (hcsr04_declared b)))
          = fst (hcsr04_get_distance b now (run b evs (hcsr04_declared b)))
        \<and> (\<forall>p. observed_pair edges (run b evs (hcsr04_declared b)) = Some p \<longrightarrow>
              p \<in> set ((0, 0) # published b evs (hcsr04_declared b))))
   \<and> fst (hcsr04_get_distance_preempted b now edges s) =
       fst (hcsr04_get_distance b now
         (s\<lparr>hcsr04SonarPulseTravelTime := hcsr04SonarPulseTravelTime (interrupts edges s)\<rparr>))"
proof (intro conjI impI allI)
  show "hcsr04_get_distance_preempted b now [] s = hcsr04_get_distance b now s"
    by (simp add: hcsr04_get_distance_preempted_def hcsr04_get_distance_def Let_def)
next
  let ?s = "run b evs (hcsr04_declared b)"
  assume q: "quiet edges ?s"
  have "hcsr04SonarPulseTravelTime (interrupts edges ?s) = hcsr04SonarPulseTravelTime ?s"
    using quiet_measurement [OF q] by (simp add: measurement_def)
  then show "fst (hcsr04_get_distance_preempted b now edges ?s) = fst (hcsr04_get_distance b now ?s)"
    by (simp add: preempted_result)
next
  fix p
  let ?s = "run b evs (hcsr04_declared b)"
  assume q: "quiet edges ?s" and o: "observed_pair edges ?s = Some p"
  have "hcsr04SonarPulseTravelTime (interrupts edges ?s) = hcsr04SonarPulseTravelTime ?s"
    using quiet_measurement [OF q] by (simp add: measurement_def)
  then have "p = measurement ?s"
    using o by (simp add: observed_pair_def measurement_def split: if_splits)
  moreover have "measurement (hcsr04_declared b) = (0, 0)"
    by (simp add: measurement_def hcsr04_declared_def)
  ultimately show "p \<in> set ((0, 0) # published b evs (hcsr04_declared b))"
    using run_measurement [of b evs "hcsr04_declared b"] by simp
next
  show "fst (hcsr04_get_distance_preempted b now edges s) =
       fst (hcsr04_get_distance b now
         (s\<lparr>hcsr04SonarPulseTravelTime := hcsr04SonarPulseTravelTime (interrupts edges s)\<rparr>))"
    by (rule preempted_result)
qed

theorem hcsr04_get_distance_preempted_pair_witness:
  "quiet [(True, 31000, 31)] (run rangefinder_h history_290us (hcsr04_declared rangefinder_h))
   \<and> observed_pair [(True, 31000, 31)]
        (run rangefinder_h history_290us (hcsr04_declared rangefinder_h)) = Some (6, 290)
   \<and> (6, 290) \<in> set ((0, 0) # published rangefinder_h history_290us (hcsr04_declared rangefinder_h))
   \<and> fst (hcsr04_get_distance_preempted rangefinder_h 31 [(True, 31000, 31)]
        (run rangefinder_h history_290us (hcsr04_declared rangefinder_h))) = 4"
proof -
  let ?s = "run rangefinder_h history_290us (hcsr04_declared rangefinder_h)"
  have q: "quiet [(True, 31000, 31)] ?s"
    by (simp add: history_290us_run)
  have o: "observed_pair [(True, 31000, 31)] ?s = Some (6, 290)"
    by (simp add: history_290us_run observed_pair_def echo_290us_eq hcsr04_extiHandler_def)
  have g: "fst (hcsr04_get_distance rangefinder_h 31 ?s) = 4"
    by (simp add: history_290us_run echo_290us_eq hcsr04_get_distance_def int32_div_def Let_def
        HCSR04_MAX_RANGE_CM_def signed_divide_int_def)
  note t = hcsr04_get_distance_preempted_pair [where b = rangefinder_h and evs = history_290us
      and edges = "[(True, 31000, 31)]" and now = 31 and s = ?s]
  have m: "(6, 290) \<in> set ((0, 0) # published rangefinder_h history_290us (hcsr04_declared rangefinder_h))"
    using t q o by blast
  have r: "fst (hcsr04_get_distance_preempted rangefinder_h 31 [(True, 31000, 31)] ?s) = 4"
    using t q g by simp
  show ?thesis
    by (intro conjI q o m r)
qed

end
